theory Spec2Isabelle
  imports Complex_Main "HOL-Library.Sublist" "HOL-Library.AList"
begin

section \<open>The configuration module of the ecosystem monitor (config.py)\<close>

text \<open>
  The module is a sequence of assignments, one loop that creates the data and model
  directories, and the function \<open>print_config\<close>. Importing the module is what the
  specification calls \<open>load()\<close>; \<open>print_config\<close> is its \<open>describe()\<close>.

  Python values are modelled as follows: \<open>str\<close> as the UTF-8 bytes of the text
  (\<open>string\<close>), \<open>int\<close> as \<open>int\<close>, a \<open>float\<close> literal as the real number it
  denotes (the claims only compare these literals with 0 and 1, and the comparisons come
  out the same for the nearest double), \<open>None\<close>-or-\<open>str\<close> as \<open>string option\<close>, a
  \<open>dict\<close> literal as the association list of its items in source order, and a
  \<open>pathlib.Path\<close> as the list of the components of the absolute path.

  A file name need not be text. Python decodes it with the handler \<open>surrogateescape\<close>,
  which turns each byte that is not part of a well-formed UTF-8 sequence into a lone
  surrogate; such a \<open>str\<close> is modelled as the bytes of the name, as \<open>os.fsencode\<close>
  gives them back. So a \<open>str\<close> is free of surrogates exactly when its bytes are
  well-formed UTF-8.
\<close>

subsection \<open>Paths and the file system\<close>

type_synonym path = "string list"

text \<open>\<open>Path.parent\<close>: the root is its own parent.\<close>

definition parent :: "path \<Rightarrow> path" where
  "parent p = butlast p"

text \<open>\<open>BASE_DIR / "data"\<close>: the operator \<open>/\<close> of \<open>Path\<close> with a plain name on the right.\<close>

definition joinpath :: "path \<Rightarrow> string \<Rightarrow> path" where
  "joinpath p name = p @ [name]"

text \<open>
  A file system is a tree of regular files and directories; a directory holds its entries
  by name. The value of type \<open>node\<close> given to the operations below is the root.
  Permissions, links and special files are not part of the model.
\<close>

datatype node = File | Dir "(string \<times> node) list"

text \<open>The subclasses of \<open>OSError\<close> that path resolution and \<open>os.mkdir\<close> raise.\<close>

datatype os_error = FileExistsError | FileNotFoundError | NotADirectoryError

text \<open>
  Path resolution, as \<open>os.stat\<close> does it: a missing component is \<open>ENOENT\<close>, a
  component below a regular file is \<open>ENOTDIR\<close>.
\<close>

fun resolve :: "node \<Rightarrow> path \<Rightarrow> os_error + node" where
  "resolve n [] = Inr n"
| "resolve File (c # cs) = Inl NotADirectoryError"
| "resolve (Dir es) (c # cs) =
     (case map_of es c of
        None \<Rightarrow> Inl FileNotFoundError
      | Some n \<Rightarrow> resolve n cs)"

text \<open>\<open>Path.exists\<close> and \<open>Path.is_dir\<close>: both answer \<open>False\<close> when resolution fails.\<close>

definition path_exists :: "node \<Rightarrow> path \<Rightarrow> bool" where
  "path_exists fs p = (case resolve fs p of Inr n \<Rightarrow> True | Inl e \<Rightarrow> False)"

definition is_dir :: "node \<Rightarrow> path \<Rightarrow> bool" where
  "is_dir fs p = (case resolve fs p of Inr (Dir es) \<Rightarrow> True | _ \<Rightarrow> False)"

definition is_file :: "node \<Rightarrow> path \<Rightarrow> bool" where
  "is_file fs p = (case resolve fs p of Inr File \<Rightarrow> True | _ \<Rightarrow> False)"

text \<open>
  \<open>os.mkdir(path)\<close>: creates one empty directory. It fails with \<open>EEXIST\<close> when the
  path exists (the root always does), with \<open>ENOENT\<close> when a component of the parent is
  missing, and with \<open>ENOTDIR\<close> when a component of the parent is a regular file.
\<close>

fun os_mkdir :: "node \<Rightarrow> path \<Rightarrow> os_error + node" where
  "os_mkdir n [] = Inl FileExistsError"
| "os_mkdir File (c # cs) = Inl NotADirectoryError"
| "os_mkdir (Dir es) [c] =
     (case map_of es c of
        Some n \<Rightarrow> Inl FileExistsError
      | None \<Rightarrow> Inr (Dir (es @ [(c, Dir [])])))"
| "os_mkdir (Dir es) (c # c' # cs) =
     (case map_of es c of
        None \<Rightarrow> Inl FileNotFoundError
      | Some n \<Rightarrow>
          (case os_mkdir n (c' # cs) of
             Inl e \<Rightarrow> Inl e
           | Inr n' \<Rightarrow> Inr (Dir (AList.update c n' es))))"

text \<open>
  \<open>Path.mkdir(parents, exist_ok)\<close> of \<open>pathlib\<close>:
  \<^verbatim>\<open>
  try:
      os.mkdir(self, mode)
  except FileNotFoundError:
      if not parents or self.parent == self:
          raise
      self.parent.mkdir(parents=True, exist_ok=True)
      self.mkdir(mode, parents=False, exist_ok=exist_ok)
  except OSError:
      if not exist_ok or not self.is_dir():
          raise
  \<close>
  The result is the error raised, or the file system after the call.
\<close>

function mkdir :: "bool \<Rightarrow> bool \<Rightarrow> node \<Rightarrow> path \<Rightarrow> os_error + node" where
  "mkdir parents exist_ok fs p =
     (case os_mkdir fs p of
        Inr fs' \<Rightarrow> Inr fs'
      | Inl FileNotFoundError \<Rightarrow>
          if \<not> parents \<or> parent p = p then Inl FileNotFoundError
          else (case mkdir True True fs (parent p) of
                  Inl e \<Rightarrow> Inl e
                | Inr fs1 \<Rightarrow> mkdir False exist_ok fs1 p)
      | Inl e \<Rightarrow> if \<not> exist_ok \<or> \<not> is_dir fs p then Inl e else Inr fs)"
  by pat_completeness auto
termination
proof (relation "measure (\<lambda>(parents, exist_ok, fs, p). 2 * length p + (if parents then 1 else 0))")
  show "wf (measure (\<lambda>(parents, exist_ok, fs, p). 2 * length p + (if parents then 1 else 0)))"
    by simp
next
  fix parents exist_ok :: bool and fs :: node and p :: path
  assume "\<not> (\<not> parents \<or> parent p = p)"
  then have "p \<noteq> []"
    by (auto simp: parent_def)
  then show "((True, True, fs, parent p), (parents, exist_ok, fs, p))
      \<in> measure (\<lambda>(parents, exist_ok, fs, p). 2 * length p + (if parents then 1 else 0))"
    by (cases p rule: rev_cases) (simp_all add: parent_def)
next
  fix parents exist_ok :: bool and fs fs1 :: node and p :: path
  assume "\<not> (\<not> parents \<or> parent p = p)"
  then show "((False, exist_ok, fs1, p), (parents, exist_ok, fs, p))
      \<in> measure (\<lambda>(parents, exist_ok, fs, p). 2 * length p + (if parents then 1 else 0))"
    by simp
qed

text \<open>
  The loop of lines 30-31:
  \<^verbatim>\<open>
  for directory in [DATA_DIR, VIDEO_DIR, AUDIO_DIR, IMAGES_DIR, RESULTS_DIR, MODELS_DIR]:
      directory.mkdir(parents=True, exist_ok=True)
  \<close>
  The first exception ends the loop and the import.
\<close>

fun create_directories :: "node \<Rightarrow> path list \<Rightarrow> os_error + node" where
  "create_directories fs [] = Inr fs"
| "create_directories fs (directory # rest) =
     (case mkdir True True fs directory of
        Inl e \<Rightarrow> Inl e
      | Inr fs' \<Rightarrow> create_directories fs' rest)"

subsection \<open>The settings\<close>

text \<open>
  The names the module binds to literals, in source order. The file is edited by hand to
  change a setting, so the module body is modelled for any right-hand sides of these
  assignments; \<open>config_py\<close> below holds the ones of the file as it stands.
\<close>

record settings =
  YOLO_MODEL :: string
  YOLO_CONFIDENCE_THRESHOLD :: real
  YOLO_IOU_THRESHOLD :: real
  ANIMAL_CLASSES :: "(int \<times> string) list"
  VIDEO_FPS_SAMPLE :: int
  VIDEO_RESIZE_FACTOR :: real
  YAMNET_MODEL_URL :: string
  YAMNET_SAMPLE_RATE :: int
  AUDIO_CONFIDENCE_THRESHOLD :: real
  NATURE_SOUND_CLASSES :: "string list"
  ALERT_MIN_ANIMALS :: int
  ALERT_MAX_ANIMALS :: int
  ALERT_RARE_SPECIES :: "string list"
  ALERT_ACTIVITY_DROP :: real
  ALERT_ACTIVITY_SPIKE :: real
  FIGURE_SIZE :: "int \<times> int"
  FIGURE_DPI :: int
  COLOR_PALETTE :: string
  BBOX_COLORS :: "(string \<times> (int \<times> int \<times> int)) list"
  EXPORT_FORMAT :: string
  DATETIME_FORMAT :: string
  SAVE_VISUALIZATIONS :: bool
  IMAGE_FORMAT :: string
  LOG_LEVEL :: string
  SAVE_LOGS :: bool
  USE_GPU :: bool
  BATCH_SIZE :: int
  NUM_WORKERS :: int
  TIMEZONE :: string
  REPORT_LANGUAGE :: string
  ALERT_EMAIL :: "string option"
  TELEGRAM_BOT_TOKEN :: "string option"
  TELEGRAM_CHAT_ID :: "string option"
  VERSION :: string
  PROJECT_NAME :: string
  PROJECT_DESCRIPTION :: string

text \<open>The module namespace after the import: the settings and the paths derived from \<open>__file__\<close>.\<close>

record config = settings +
  BASE_DIR :: path
  DATA_DIR :: path
  VIDEO_DIR :: path
  AUDIO_DIR :: path
  IMAGES_DIR :: path
  RESULTS_DIR :: path
  MODELS_DIR :: path
  LOG_FILE :: path

text \<open>
  The text of \<open>PROJECT_DESCRIPTION\<close> is Cyrillic
  (in Latin letters: "Sistema monitoringa ekosistemy s ispol'zovaniem ML").
\<close>

definition project_description_text :: string where
  "project_description_text =
     [CHR 0xD0, CHR 0xA1, CHR 0xD0, CHR 0xB8, CHR 0xD1, CHR 0x81, CHR 0xD1, CHR 0x82,
      CHR 0xD0, CHR 0xB5, CHR 0xD0, CHR 0xBC, CHR 0xD0, CHR 0xB0] @ '' '' @
     [CHR 0xD0, CHR 0xBC, CHR 0xD0, CHR 0xBE, CHR 0xD0, CHR 0xBD, CHR 0xD0, CHR 0xB8,
      CHR 0xD1, CHR 0x82, CHR 0xD0, CHR 0xBE, CHR 0xD1, CHR 0x80, CHR 0xD0, CHR 0xB8,
      CHR 0xD0, CHR 0xBD, CHR 0xD0, CHR 0xB3, CHR 0xD0, CHR 0xB0] @ '' '' @
     [CHR 0xD1, CHR 0x8D, CHR 0xD0, CHR 0xBA, CHR 0xD0, CHR 0xBE, CHR 0xD1, CHR 0x81,
      CHR 0xD0, CHR 0xB8, CHR 0xD1, CHR 0x81, CHR 0xD1, CHR 0x82, CHR 0xD0, CHR 0xB5,
      CHR 0xD0, CHR 0xBC, CHR 0xD1, CHR 0x8B] @ '' '' @
     [CHR 0xD1, CHR 0x81] @ '' '' @
     [CHR 0xD0, CHR 0xB8, CHR 0xD1, CHR 0x81, CHR 0xD0, CHR 0xBF, CHR 0xD0, CHR 0xBE,
      CHR 0xD0, CHR 0xBB, CHR 0xD1, CHR 0x8C, CHR 0xD0, CHR 0xB7, CHR 0xD0, CHR 0xBE,
      CHR 0xD0, CHR 0xB2, CHR 0xD0, CHR 0xB0, CHR 0xD0, CHR 0xBD, CHR 0xD0, CHR 0xB8,
      CHR 0xD0, CHR 0xB5, CHR 0xD0, CHR 0xBC] @ '' ML''"

text \<open>The right-hand sides of the assignments in config.py (lines 37 to 194).\<close>

definition config_py :: settings where
  "config_py = \<lparr>
     YOLO_MODEL = ''yolov8n.pt'',
     YOLO_CONFIDENCE_THRESHOLD = 0.25,
     YOLO_IOU_THRESHOLD = 0.45,
     ANIMAL_CLASSES =
       [(14, ''bird''), (15, ''cat''), (16, ''dog''), (17, ''horse''), (18, ''sheep''),
        (19, ''cow''), (20, ''elephant''), (21, ''bear''), (22, ''zebra''), (23, ''giraffe'')],
     VIDEO_FPS_SAMPLE = 2,
     VIDEO_RESIZE_FACTOR = 1.0,
     YAMNET_MODEL_URL = ''https://tfhub.dev/google/yamnet/1'',
     YAMNET_SAMPLE_RATE = 16000,
     AUDIO_CONFIDENCE_THRESHOLD = 0.3,
     NATURE_SOUND_CLASSES =
       [''Bird'', ''Bird vocalization'', ''Bird flight'', ''Chirp'', ''Tweet'', ''Squawk'',
        ''Animal'', ''Domestic animals'', ''Wild animals'', ''Insect'', ''Cricket'', ''Frog'',
        ''Wind'', ''Rain'', ''Stream'', ''Ocean'', ''Thunder''],
     ALERT_MIN_ANIMALS = 10,
     ALERT_MAX_ANIMALS = 100,
     ALERT_RARE_SPECIES = [''bear'', ''elephant'', ''giraffe'', ''zebra''],
     ALERT_ACTIVITY_DROP = 0.5,
     ALERT_ACTIVITY_SPIKE = 2.0,
     FIGURE_SIZE = (15, 8),
     FIGURE_DPI = 100,
     COLOR_PALETTE = ''viridis'',
     BBOX_COLORS =
       [(''bird'', (0, 255, 0)), (''bear'', (255, 0, 0)), (''deer'', (0, 255, 255)),
        (''default'', (255, 255, 0))],
     EXPORT_FORMAT = ''csv'',
     DATETIME_FORMAT = ''%Y-%m-%d_%H-%M-%S'',
     SAVE_VISUALIZATIONS = True,
     IMAGE_FORMAT = ''png'',
     LOG_LEVEL = ''INFO'',
     SAVE_LOGS = True,
     USE_GPU = True,
     BATCH_SIZE = 16,
     NUM_WORKERS = 4,
     TIMEZONE = ''UTC'',
     REPORT_LANGUAGE = ''ru'',
     ALERT_EMAIL = None,
     TELEGRAM_BOT_TOKEN = None,
     TELEGRAM_CHAT_ID = None,
     VERSION = ''1.0.0'',
     PROJECT_NAME = ''Ecosystem Monitoring System'',
     PROJECT_DESCRIPTION = project_description_text \<rparr>"

text \<open>
  The values the comments of the source list for the three enumerated settings
  (lines 138, 147 and 153).
\<close>

definition export_formats :: "string set" where
  "export_formats = {''csv'', ''json'', ''excel''}"

definition image_formats :: "string set" where
  "image_formats = {''png'', ''jpg''}"

definition log_levels :: "string set" where
  "log_levels = {''DEBUG'', ''INFO'', ''WARNING'', ''ERROR''}"

subsection \<open>The module body\<close>

text \<open>
  Lines 17 to 27 and 159: the paths. \<open>file\<close> is the absolute path of config.py
  (\<open>Path(__file__)\<close> made absolute).
\<close>

definition namespace :: "settings \<Rightarrow> path \<Rightarrow> config" where
  "namespace src file =
     (let base_dir = parent file;
          data_dir = joinpath base_dir ''data''
      in settings.extend src
           \<lparr> BASE_DIR = base_dir,
             DATA_DIR = data_dir,
             VIDEO_DIR = joinpath data_dir ''videos'',
             AUDIO_DIR = joinpath data_dir ''audio'',
             IMAGES_DIR = joinpath data_dir ''images'',
             RESULTS_DIR = joinpath data_dir ''results'',
             MODELS_DIR = joinpath base_dir ''models'',
             LOG_FILE = joinpath base_dir ''ecosystem_monitor.log'' \<rparr>)"

text \<open>The list the loop of line 30 runs over.\<close>

definition directory_list :: "config \<Rightarrow> path list" where
  "directory_list cfg =
     [DATA_DIR cfg, VIDEO_DIR cfg, AUDIO_DIR cfg, IMAGES_DIR cfg, RESULTS_DIR cfg,
      MODELS_DIR cfg]"

text \<open>
  The import of the module whose assignments have the right-hand sides \<open>src\<close>: the paths
  are computed, the six directories are created in the order of the loop, and the
  remaining names are bound. Nothing else is executed at import: no value is checked.
  The result is the exception that ends the import, or the namespace and the file system
  the import leaves.
\<close>

definition load_with :: "settings \<Rightarrow> path \<Rightarrow> node \<Rightarrow> os_error + (config \<times> node)" where
  "load_with src file fs =
     (let cfg = namespace src file
      in case create_directories fs (directory_list cfg) of
           Inl e \<Rightarrow> Inl e
         | Inr fs' \<Rightarrow> Inr (cfg, fs'))"

text \<open>The import of config.py as it stands.\<close>

definition load :: "path \<Rightarrow> node \<Rightarrow> os_error + (config \<times> node)" where
  "load file fs = load_with config_py file fs"

subsection \<open>print_config\<close>

text \<open>
  An f-string is the sequence of its literal parts and replacement fields; a replacement
  field is kept as the value it formats. Each \<open>print\<close> writes one line.
\<close>

datatype pyval = PyStr string | PyFloat real | PyBool bool | PyPath path

datatype piece = Lit string | Fmt pyval

text \<open>
  \<open>print\<close> hands the line to \<open>sys.stdout\<close>, which encodes it with its encoding and
  raises \<open>UnicodeEncodeError\<close> when a character has no encoding. Two encodings of stdout
  are modelled, both with the error handler \<open>strict\<close>: UTF-8, and ASCII (as with
  \<open>PYTHONIOENCODING=ascii\<close>). Stdout is taken to be open and its device to accept what
  is written.
\<close>

datatype unicode_error = UnicodeEncodeError

datatype encoding = Utf8 | Ascii

definition in_range :: "nat \<Rightarrow> nat \<Rightarrow> char \<Rightarrow> bool" where
  "in_range lo hi c = (lo \<le> of_char c \<and> of_char c \<le> hi)"

text \<open>
  Well-formed UTF-8 (the Unicode standard, table 3-7): no overlong form, no surrogate,
  nothing above U+10FFFF, no sequence cut short.
\<close>

fun utf8_well_formed :: "string \<Rightarrow> bool" where
  "utf8_well_formed [] = True"
| "utf8_well_formed (b # bs) =
     (if in_range 0x00 0x7F b then utf8_well_formed bs
      else if in_range 0xC2 0xDF b then
        (case bs of
           c1 # r \<Rightarrow> in_range 0x80 0xBF c1 \<and> utf8_well_formed r
         | _ \<Rightarrow> False)
      else if in_range 0xE0 0xEF b then
        (case bs of
           c1 # c2 # r \<Rightarrow>
             in_range (if b = CHR 0xE0 then 0xA0 else 0x80)
                      (if b = CHR 0xED then 0x9F else 0xBF) c1 \<and>
             in_range 0x80 0xBF c2 \<and> utf8_well_formed r
         | _ \<Rightarrow> False)
      else if in_range 0xF0 0xF4 b then
        (case bs of
           c1 # c2 # c3 # r \<Rightarrow>
             in_range (if b = CHR 0xF0 then 0x90 else 0x80)
                      (if b = CHR 0xF4 then 0x8F else 0xBF) c1 \<and>
             in_range 0x80 0xBF c2 \<and> in_range 0x80 0xBF c3 \<and> utf8_well_formed r
         | _ \<Rightarrow> False)
      else False)"

text \<open>
  Whether \<open>str.encode(encoding, "strict")\<close> succeeds: UTF-8 has every character but
  the lone surrogates, ASCII has the characters below 128 only.
\<close>

definition encodable :: "encoding \<Rightarrow> string \<Rightarrow> bool" where
  "encodable enc s =
     (case enc of
        Utf8 \<Rightarrow> utf8_well_formed s
      | Ascii \<Rightarrow> list_all (in_range 0x00 0x7F) s)"

text \<open>
  What a replacement field writes: a \<open>str\<close> itself; for a \<open>float\<close> and a \<open>bool\<close>
  their \<open>repr\<close>, which is ASCII; for a \<open>Path\<close> its components, joined by slashes.
\<close>

fun value_encodable :: "encoding \<Rightarrow> pyval \<Rightarrow> bool" where
  "value_encodable enc (PyStr s) = encodable enc s"
| "value_encodable enc (PyFloat x) = True"
| "value_encodable enc (PyBool b) = True"
| "value_encodable enc (PyPath p) = list_all (encodable enc) p"

fun piece_encodable :: "encoding \<Rightarrow> piece \<Rightarrow> bool" where
  "piece_encodable enc (Lit s) = encodable enc s"
| "piece_encodable enc (Fmt v) = value_encodable enc v"

text \<open>
  \<open>print(line)\<close> on a stdout with the encoding \<open>enc\<close> that holds the lines \<open>out\<close>:
  the line is appended, or the exception is raised and nothing of the line is written.
\<close>

type_synonym stdout = "piece list list"

definition print :: "encoding \<Rightarrow> piece list \<Rightarrow> stdout \<Rightarrow> unicode_error + stdout" where
  "print enc line out =
     (if list_all (piece_encodable enc) line then Inr (out @ [line])
      else Inl UnicodeEncodeError)"

text \<open>A sequence of \<open>print\<close> statements: the first exception ends it.\<close>

fun print_all :: "encoding \<Rightarrow> piece list list \<Rightarrow> stdout \<Rightarrow> unicode_error + stdout" where
  "print_all enc [] out = Inr out"
| "print_all enc (line # rest) out =
     (case print enc line out of
        Inl e \<Rightarrow> Inl e
      | Inr out' \<Rightarrow> print_all enc rest out')"

text \<open>
  The captions are Cyrillic; in Latin letters they read "Bazovaya direktoriya: ",
  "Direktoriya dannykh: ", "Model' YOLO: ", "Porog uverennosti YOLO: ",
  "Porog uverennosti audio: " and "Ispol'zovanie GPU: ".
\<close>

definition caption_base_dir :: string where
  "caption_base_dir =
     [CHR 0xD0, CHR 0x91, CHR 0xD0, CHR 0xB0, CHR 0xD0, CHR 0xB7, CHR 0xD0, CHR 0xBE,
      CHR 0xD0, CHR 0xB2, CHR 0xD0, CHR 0xB0, CHR 0xD1, CHR 0x8F] @ '' '' @
     [CHR 0xD0, CHR 0xB4, CHR 0xD0, CHR 0xB8, CHR 0xD1, CHR 0x80, CHR 0xD0, CHR 0xB5,
      CHR 0xD0, CHR 0xBA, CHR 0xD1, CHR 0x82, CHR 0xD0, CHR 0xBE, CHR 0xD1, CHR 0x80,
      CHR 0xD0, CHR 0xB8, CHR 0xD1, CHR 0x8F] @ '': ''"

definition caption_data_dir :: string where
  "caption_data_dir =
     [CHR 0xD0, CHR 0x94, CHR 0xD0, CHR 0xB8, CHR 0xD1, CHR 0x80, CHR 0xD0, CHR 0xB5,
      CHR 0xD0, CHR 0xBA, CHR 0xD1, CHR 0x82, CHR 0xD0, CHR 0xBE, CHR 0xD1, CHR 0x80,
      CHR 0xD0, CHR 0xB8, CHR 0xD1, CHR 0x8F] @ '' '' @
     [CHR 0xD0, CHR 0xB4, CHR 0xD0, CHR 0xB0, CHR 0xD0, CHR 0xBD, CHR 0xD0, CHR 0xBD,
      CHR 0xD1, CHR 0x8B, CHR 0xD1, CHR 0x85] @ '': ''"

definition caption_yolo_model :: string where
  "caption_yolo_model =
     [CHR 0xD0, CHR 0x9C, CHR 0xD0, CHR 0xBE, CHR 0xD0, CHR 0xB4, CHR 0xD0, CHR 0xB5,
      CHR 0xD0, CHR 0xBB, CHR 0xD1, CHR 0x8C] @ '' YOLO: ''"

definition caption_threshold :: string where
  "caption_threshold =
     [CHR 0xD0, CHR 0x9F, CHR 0xD0, CHR 0xBE, CHR 0xD1, CHR 0x80, CHR 0xD0, CHR 0xBE,
      CHR 0xD0, CHR 0xB3] @ '' '' @
     [CHR 0xD1, CHR 0x83, CHR 0xD0, CHR 0xB2, CHR 0xD0, CHR 0xB5, CHR 0xD1, CHR 0x80,
      CHR 0xD0, CHR 0xB5, CHR 0xD0, CHR 0xBD, CHR 0xD0, CHR 0xBD, CHR 0xD0, CHR 0xBE,
      CHR 0xD1, CHR 0x81, CHR 0xD1, CHR 0x82, CHR 0xD0, CHR 0xB8] @ '' ''"

definition caption_yolo_threshold :: string where
  "caption_yolo_threshold = caption_threshold @ ''YOLO: ''"

definition caption_audio_threshold :: string where
  "caption_audio_threshold =
     caption_threshold @
     [CHR 0xD0, CHR 0xB0, CHR 0xD1, CHR 0x83, CHR 0xD0, CHR 0xB4, CHR 0xD0, CHR 0xB8,
      CHR 0xD0, CHR 0xBE] @ '': ''"

definition caption_use_gpu :: string where
  "caption_use_gpu =
     [CHR 0xD0, CHR 0x98, CHR 0xD1, CHR 0x81, CHR 0xD0, CHR 0xBF, CHR 0xD0, CHR 0xBE,
      CHR 0xD0, CHR 0xBB, CHR 0xD1, CHR 0x8C, CHR 0xD0, CHR 0xB7, CHR 0xD0, CHR 0xBE,
      CHR 0xD0, CHR 0xB2, CHR 0xD0, CHR 0xB0, CHR 0xD0, CHR 0xBD, CHR 0xD0, CHR 0xB8,
      CHR 0xD0, CHR 0xB5] @ '' GPU: ''"

text \<open>
  \<open>print_config\<close>: ten \<open>print\<close> statements, in order. It reads the module's globals,
  given here as the namespace; \<open>enc\<close> is the encoding of stdout and \<open>out\<close> what stdout
  holds before the call.
\<close>

definition print_config :: "encoding \<Rightarrow> config \<Rightarrow> stdout \<Rightarrow> unicode_error + stdout" where
  "print_config enc cfg out =
     print_all enc
       [ [Fmt (PyStr (replicate 60 CHR ''=''))],
         [Fmt (PyStr (PROJECT_NAME cfg)), Lit '' v'', Fmt (PyStr (VERSION cfg))],
         [Fmt (PyStr (replicate 60 CHR ''=''))],
         [Lit caption_base_dir, Fmt (PyPath (BASE_DIR cfg))],
         [Lit caption_data_dir, Fmt (PyPath (DATA_DIR cfg))],
         [Lit caption_yolo_model, Fmt (PyStr (YOLO_MODEL cfg))],
         [Lit caption_yolo_threshold, Fmt (PyFloat (YOLO_CONFIDENCE_THRESHOLD cfg))],
         [Lit caption_audio_threshold, Fmt (PyFloat (AUDIO_CONFIDENCE_THRESHOLD cfg))],
         [Lit caption_use_gpu, Fmt (PyBool (USE_GPU cfg))],
         [Fmt (PyStr (replicate 60 CHR ''=''))] ]
       out"

subsection \<open>Dictionaries and the colour lookup of the consumers\<close>

text \<open>
  The mapping a \<open>dict\<close> display denotes: the items are stored from left to right, so a
  later item replaces an earlier one with the same key.
\<close>

definition dict :: "('k \<times> 'v) list \<Rightarrow> 'k \<Rightarrow> 'v option" where
  "dict items = map_of (rev items)"

text \<open>
  Modelled from the spec: the species-colour lookup. config.py only declares
  \<open>BBOX_COLORS\<close>; the lookup belongs to the visualisation code, which is not part of
  the source given. The specification describes it as a fallback lookup: the entry of the
  species when the mapping lists it, the \<open>default\<close> entry otherwise.
\<close>

definition color_lookup ::
  "(string \<times> (int \<times> int \<times> int)) list \<Rightarrow> string \<Rightarrow> (int \<times> int \<times> int) option" where
  "color_lookup colors species =
     (case dict colors species of
        Some color \<Rightarrow> Some color
      | None \<Rightarrow> dict colors ''default'')"

subsection \<open>Vocabulary of the proofs and an example installation\<close>

text \<open>What \<open>os.stat\<close> tells about a path: the error, or whether it is a directory.\<close>

definition kind :: "node \<Rightarrow> path \<Rightarrow> os_error + bool" where
  "kind fs p = map_sum id (\<lambda>n. case n of File \<Rightarrow> False | Dir es \<Rightarrow> True) (resolve fs p)"

text \<open>
  An installation in \<open>/srv/eco\<close>: right after the checkout, after a first import, and
  with a regular file in the place of the video directory.
\<close>

definition example_file :: path where
  "example_file = [''srv'', ''eco'', ''config.py'']"

definition example_fs :: node where
  "example_fs = Dir [(''srv'', Dir [(''eco'', Dir [(''config.py'', File)])])]"

definition example_fs_ready :: node where
  "example_fs_ready =
     Dir [(''srv'', Dir [(''eco'',
       Dir [(''config.py'', File),
            (''data'', Dir [(''videos'', Dir []), (''audio'', Dir []), (''images'', Dir []),
                           (''results'', Dir [])]),
            (''models'', Dir [])])])]"

definition example_fs_blocked :: node where
  "example_fs_blocked =
     Dir [(''srv'', Dir [(''eco'',
       Dir [(''config.py'', File),
            (''data'', Dir [(''videos'', File)])])])]"

text \<open>
  config.py after an edit of its right-hand sides: thresholds that are no probabilities,
  formats and a log level the comments do not list, a minimum above the maximum, and
  the notification channels filled in.
\<close>

definition edited_thresholds :: settings where
  "edited_thresholds =
     config_py\<lparr>YOLO_CONFIDENCE_THRESHOLD := 1.5, YOLO_IOU_THRESHOLD := - 0.5,
               AUDIO_CONFIDENCE_THRESHOLD := 2\<rparr>"

definition edited_formats :: settings where
  "edited_formats =
     config_py\<lparr>EXPORT_FORMAT := ''xml'', IMAGE_FORMAT := ''bmp'', LOG_LEVEL := ''TRACE''\<rparr>"

definition edited_animal_bounds :: settings where
  "edited_animal_bounds = config_py\<lparr>ALERT_MIN_ANIMALS := 50, ALERT_MAX_ANIMALS := 10\<rparr>"

definition edited_notification :: settings where
  "edited_notification =
     config_py\<lparr>ALERT_EMAIL := Some ''ecologist@example.com'',
               TELEGRAM_BOT_TOKEN := Some ''12345:token'',
               TELEGRAM_CHAT_ID := Some ''42''\<rparr>"

section \<open>Properties\<close>

declare mkdir.simps [simp del]

subsection \<open>The file system operations\<close>

lemma is_dir_kind: "is_dir fs p = (kind fs p = Inr True)"
  by (auto simp: is_dir_def kind_def split: sum.splits node.splits)

lemma is_file_kind: "is_file fs p = (kind fs p = Inr False)"
  by (auto simp: is_file_def kind_def split: sum.splits node.splits)

lemma path_exists_kind: "path_exists fs p = (\<exists>b. kind fs p = Inr b)"
  by (auto simp: path_exists_def kind_def split: sum.splits node.splits)

lemma resolve_empty_dir: "cs \<noteq> [] \<Longrightarrow> resolve (Dir []) cs = Inl FileNotFoundError"
  by (cases cs) simp_all

text \<open>\<open>os.mkdir\<close> refuses every path that exists.\<close>

lemma os_mkdir_exists: "resolve fs p = Inr n \<Longrightarrow> os_mkdir fs p = Inl FileExistsError"
  by (induction fs p arbitrary: n rule: os_mkdir.induct) (auto split: option.splits sum.splits)

lemma os_mkdir_fresh: "os_mkdir fs q = Inr fs' \<Longrightarrow> \<not> path_exists fs q"
  by (auto simp: path_exists_def dest: os_mkdir_exists split: sum.splits)

text \<open>A successful \<open>os.mkdir\<close> changes what \<open>stat\<close> tells at the new path only.\<close>

lemma os_mkdir_kind:
  "os_mkdir fs q = Inr fs' \<Longrightarrow> kind fs' p = (if p = q then Inr True else kind fs p)"
proof (induction fs q arbitrary: fs' p rule: os_mkdir.induct)
  case (1 n)
  then show ?case by simp
next
  case (2 c cs)
  then show ?case by simp
next
  case (3 es c)
  then show ?case
    by (cases p) (auto simp: kind_def map_add_def resolve_empty_dir split: option.splits)
next
  case (4 es c c' cs)
  then show ?case
    by (cases p) (auto simp: kind_def update_conv' split: option.splits sum.splits)
qed

text \<open>
  \<open>Path.mkdir\<close> only ever adds directories, at the path or above it, where nothing was.
\<close>

lemma mkdir_kind:
  "mkdir parents exist_ok fs q = Inr fs' \<Longrightarrow>
     kind fs' p = kind fs p \<or> (prefix p q \<and> \<not> path_exists fs p \<and> kind fs' p = Inr True)"
proof (induction parents exist_ok fs q arbitrary: fs' p rule: mkdir.induct)
  case (1 parents exist_ok fs q)
  show ?case
  proof (cases "os_mkdir fs q")
    case (Inr fs2)
    with "1.prems" have "fs' = fs2"
      by (simp add: mkdir.simps [of parents exist_ok fs q])
    with Inr os_mkdir_kind [OF Inr, of p] os_mkdir_fresh [OF Inr] show ?thesis
      by (cases "p = q") simp_all
  next
    case (Inl e)
    show ?thesis
    proof (cases "e = FileNotFoundError")
      case False
      with Inl "1.prems" have "fs' = fs"
        by (cases e) (auto simp: mkdir.simps [of parents exist_ok fs q] split: if_splits)
      then show ?thesis by simp
    next
      case True
      with Inl "1.prems" obtain fs1 where
        c: "\<not> (\<not> parents \<or> parent q = q)" and
        m1: "mkdir True True fs (parent q) = Inr fs1" and
        m2: "mkdir False exist_ok fs1 q = Inr fs'"
        by (auto simp: mkdir.simps [of parents exist_ok fs q] split: if_splits sum.splits)
      from "1.IH"(1) [OF Inl True c m1]
      have s1: "kind fs1 p = kind fs p \<or>
          (prefix p (parent q) \<and> \<not> path_exists fs p \<and> kind fs1 p = Inr True)" .
      from "1.IH"(2) [OF Inl True c m1 m2]
      have s2: "kind fs' p = kind fs1 p \<or>
          (prefix p q \<and> \<not> path_exists fs1 p \<and> kind fs' p = Inr True)" .
      have pq: "prefix p (parent q) \<Longrightarrow> prefix p q"
        by (metis parent_def prefix_order.trans prefixeq_butlast)
      from s1 s2 pq show ?thesis
        by (auto simp: path_exists_kind)
    qed
  qed
qed

lemma mkdir_existing_dir: "is_dir fs p \<Longrightarrow> mkdir parents True fs p = Inr fs"
proof -
  assume d: "is_dir fs p"
  then obtain n where "resolve fs p = Inr n"
    by (auto simp: is_dir_def split: sum.splits)
  then have "os_mkdir fs p = Inl FileExistsError"
    by (rule os_mkdir_exists)
  with d show ?thesis
    by (simp add: mkdir.simps [of parents True fs p])
qed

lemma mkdir_regular_file:
  "is_file fs p \<Longrightarrow> mkdir parents exist_ok fs p = Inl FileExistsError"
proof -
  assume f: "is_file fs p"
  then have "resolve fs p = Inr File"
    by (auto simp: is_file_def split: sum.splits node.splits)
  then have "os_mkdir fs p = Inl FileExistsError" and "\<not> is_dir fs p"
    by (simp_all add: os_mkdir_exists is_dir_def)
  then show ?thesis
    by (simp add: mkdir.simps [of parents exist_ok fs p])
qed

lemma mkdir_keeps_file:
  "mkdir parents exist_ok fs q = Inr fs' \<Longrightarrow> is_file fs p \<Longrightarrow> is_file fs' p"
  using mkdir_kind [of parents exist_ok fs q fs' p]
  by (auto simp: is_file_kind path_exists_kind)

subsection \<open>The loop over directories that exist\<close>

lemma create_directories_existing:
  "\<forall>d \<in> set ds. is_dir fs d \<Longrightarrow> create_directories fs ds = Inr fs"
  by (induction ds) (simp_all add: mkdir_existing_dir)

subsection \<open>Paths that exist, and the errors of mkdir\<close>

lemma resolve_append:
  "resolve fs (a @ b) = (case resolve fs a of Inl e \<Rightarrow> Inl e | Inr n \<Rightarrow> resolve n b)"
  by (induction fs a rule: resolve.induct) (auto split: option.splits)

lemma exists_prefix: "path_exists fs q \<Longrightarrow> prefix p q \<Longrightarrow> path_exists fs p"
  by (auto simp: path_exists_def prefix_def resolve_append split: sum.splits)

lemma is_dir_strict_prefix: "path_exists fs q \<Longrightarrow> strict_prefix p q \<Longrightarrow> is_dir fs p"
proof -
  assume e: "path_exists fs q" and "strict_prefix p q"
  then obtain b where q: "q = p @ b" and b: "b \<noteq> []"
    by (auto simp: strict_prefix_def prefix_def)
  from e q obtain n m where "resolve fs p = Inr n" and "resolve n b = Inr m"
    by (auto simp: path_exists_def resolve_append split: sum.splits)
  with b show ?thesis
    by (cases n; cases b) (auto simp: is_dir_def)
qed

lemma mkdir_makes_dir: "mkdir parents exist_ok fs p = Inr fs' \<Longrightarrow> is_dir fs' p"
proof (induction parents exist_ok fs p arbitrary: fs' rule: mkdir.induct)
  case (1 parents exist_ok fs p)
  show ?case
  proof (cases "os_mkdir fs p")
    case (Inr fs2)
    with "1.prems" have "fs' = fs2"
      by (simp add: mkdir.simps [of parents exist_ok fs p])
    with os_mkdir_kind [OF Inr, of p] show ?thesis
      by (simp add: is_dir_kind)
  next
    case (Inl e)
    show ?thesis
    proof (cases "e = FileNotFoundError")
      case False
      with Inl "1.prems" show ?thesis
        by (cases e) (auto simp: mkdir.simps [of parents exist_ok fs p] split: if_splits)
    next
      case True
      with Inl "1.prems" obtain fs1 where
        c: "\<not> (\<not> parents \<or> parent p = p)" and
        m1: "mkdir True True fs (parent p) = Inr fs1" and
        m2: "mkdir False exist_ok fs1 p = Inr fs'"
        by (auto simp: mkdir.simps [of parents exist_ok fs p] split: if_splits sum.splits)
      from "1.IH"(2) [OF Inl True c m1 m2] show ?thesis .
    qed
  qed
qed

lemma mkdir_keeps_dir:
  "mkdir parents exist_ok fs q = Inr fs' \<Longrightarrow> is_dir fs p \<Longrightarrow> is_dir fs' p"
  using mkdir_kind [of parents exist_ok fs q fs' p]
  by (auto simp: is_dir_kind path_exists_kind)

lemma mkdir_file_before:
  "mkdir parents exist_ok fs q = Inr fs' \<Longrightarrow> is_file fs' p \<Longrightarrow> is_file fs p"
  using mkdir_kind [of parents exist_ok fs q fs' p]
  by (auto simp: is_file_kind path_exists_kind)

lemma create_directories_new:
  "create_directories fs ds = Inr fs' \<Longrightarrow> path_exists fs' p \<Longrightarrow> \<not> path_exists fs p \<Longrightarrow>
     \<exists>d \<in> set ds. prefix p d"
proof (induction ds arbitrary: fs)
  case Nil
  then show ?case by simp
next
  case (Cons x ds)
  from Cons.prems(1) obtain fs1 where
    m: "mkdir True True fs x = Inr fs1" and r: "create_directories fs1 ds = Inr fs'"
    by (auto split: sum.splits)
  show ?case
  proof (cases "path_exists fs1 p")
    case True
    with Cons.prems(3) mkdir_kind [OF m, of p] have "prefix p x"
      by (auto simp: path_exists_kind)
    then show ?thesis by simp
  next
    case False
    from Cons.IH [OF r Cons.prems(2) False] show ?thesis by auto
  qed
qed

text \<open>Why \<open>os.mkdir\<close> fails with \<open>ENOTDIR\<close> and with \<open>ENOENT\<close>.\<close>

lemma os_mkdir_not_a_directory:
  "os_mkdir fs x = Inl NotADirectoryError \<Longrightarrow> \<exists>a. strict_prefix a x \<and> is_file fs a"
proof (induction fs x rule: os_mkdir.induct)
  case (1 n)
  then show ?case by simp
next
  case (2 c cs)
  have "strict_prefix [] (c # cs)" and "is_file File []"
    by (simp_all add: is_file_def)
  then show ?case by blast
next
  case (3 es c)
  then show ?case by (simp split: option.splits)
next
  case (4 es c c' cs)
  from "4.prems" obtain n where n: "map_of es c = Some n"
    and e: "os_mkdir n (c' # cs) = Inl NotADirectoryError"
    by (auto split: option.splits sum.splits)
  from "4.IH" [OF n e] obtain a where "strict_prefix a (c' # cs)" and "is_file n a"
    by blast
  with n have "strict_prefix (c # a) (c # c' # cs)" and "is_file (Dir es) (c # a)"
    by (simp_all add: is_file_def)
  then show ?case by blast
qed

lemma os_mkdir_not_found:
  "os_mkdir fs x = Inl FileNotFoundError \<Longrightarrow> \<not> is_dir fs (parent x)"
proof (induction fs x rule: os_mkdir.induct)
  case (1 n)
  then show ?case by simp
next
  case (2 c cs)
  then show ?case by simp
next
  case (3 es c)
  then show ?case by (simp split: option.splits)
next
  case (4 es c c' cs)
  show ?case
  proof (cases "map_of es c")
    case None
    then show ?thesis
      by (simp add: is_dir_def parent_def)
  next
    case (Some n)
    with "4.prems" have "os_mkdir n (c' # cs) = Inl FileNotFoundError"
      by (auto split: sum.splits)
    from "4.IH" [OF Some this] Some show ?thesis
      by (simp add: is_dir_def parent_def)
  qed
qed

lemma mkdir_error:
  "mkdir parents exist_ok fs x = Inl e \<Longrightarrow>
     e = FileExistsError \<or>
     (e = NotADirectoryError \<and> (\<exists>a. strict_prefix a x \<and> is_file fs a)) \<or>
     (e = FileNotFoundError \<and> \<not> parents \<and> \<not> is_dir fs (parent x))"
proof (induction parents exist_ok fs x arbitrary: e rule: mkdir.induct)
  case (1 parents exist_ok fs x)
  show ?case
  proof (cases "os_mkdir fs x")
    case (Inr fs2)
    with "1.prems" show ?thesis
      by (simp add: mkdir.simps [of parents exist_ok fs x])
  next
    case (Inl e0)
    show ?thesis
    proof (cases "e0 = FileNotFoundError")
      case False
      with Inl "1.prems" have "e = e0"
        by (cases e0) (auto simp: mkdir.simps [of parents exist_ok fs x] split: if_splits)
      with False Inl os_mkdir_not_a_directory [of fs x] show ?thesis
        by (cases e0) auto
    next
      case True
      note nf = os_mkdir_not_found [OF Inl [unfolded True]]
      have unfold: "mkdir parents exist_ok fs x =
          (if \<not> parents \<or> parent x = x then Inl FileNotFoundError
           else (case mkdir True True fs (parent x) of
                   Inl e \<Rightarrow> Inl e
                 | Inr fs1 \<Rightarrow> mkdir False exist_ok fs1 x))"
        using Inl True by (subst mkdir.simps) simp
      show ?thesis
      proof (cases "\<not> parents \<or> parent x = x")
        case stop: True
        with unfold "1.prems" have e: "e = FileNotFoundError"
          by simp
        from Inl True have "x \<noteq> []"
          by auto
        then have "parent x \<noteq> x"
          by (cases x rule: rev_cases) (simp_all add: parent_def)
        with stop e nf show ?thesis by simp
      next
        case go: False
        show ?thesis
        proof (cases "mkdir True True fs (parent x)")
          case up: (Inl e1)
          with unfold go "1.prems" have "e = e1"
            by simp
          with "1.IH"(1) [OF Inl True go up]
          have "e = FileExistsError \<or>
              (e = NotADirectoryError \<and> (\<exists>a. strict_prefix a (parent x) \<and> is_file fs a))"
            by auto
          moreover have "strict_prefix a (parent x) \<Longrightarrow> strict_prefix a x" for a
            by (metis parent_def prefix_order.less_le_trans prefixeq_butlast)
          ultimately show ?thesis by blast
        next
          case up: (Inr fs1)
          with unfold go "1.prems" have m2: "mkdir False exist_ok fs1 x = Inl e"
            by simp
          from mkdir_makes_dir [OF up] have "is_dir fs1 (parent x)" .
          with "1.IH"(2) [OF Inl True go up m2]
          have "e = FileExistsError \<or>
              (e = NotADirectoryError \<and> (\<exists>a. strict_prefix a x \<and> is_file fs1 a))"
            by auto
          with mkdir_file_before [OF up] show ?thesis by blast
        qed
      qed
    qed
  qed
qed

lemma mkdir_parents_error:
  "mkdir True True fs x = Inl e \<Longrightarrow> \<forall>a. strict_prefix a x \<longrightarrow> \<not> is_file fs a \<Longrightarrow>
     e = FileExistsError"
  using mkdir_error [of True True fs x e] by auto

lemma create_directories_file_exists:
  "d \<in> set ds \<Longrightarrow> is_file fs d \<Longrightarrow>
   \<forall>x \<in> set ds. \<forall>a. strict_prefix a x \<longrightarrow> \<not> is_file fs a \<Longrightarrow>
     create_directories fs ds = Inl FileExistsError"
proof (induction ds arbitrary: fs)
  case Nil
  then show ?case by simp
next
  case (Cons x ds)
  show ?case
  proof (cases "mkdir True True fs x")
    case (Inl e)
    with Cons.prems(3) mkdir_parents_error [OF Inl] show ?thesis
      by simp
  next
    case (Inr fs1)
    with Cons.prems mkdir_regular_file [of fs d True True] have "d \<in> set ds"
      by auto
    moreover from Inr Cons.prems have "is_file fs1 d"
      by (auto intro: mkdir_keeps_file)
    moreover from Cons.prems(3) mkdir_file_before [OF Inr]
    have "\<forall>x \<in> set ds. \<forall>a. strict_prefix a x \<longrightarrow> \<not> is_file fs1 a"
      by auto
    ultimately have "create_directories fs1 ds = Inl FileExistsError"
      by (rule Cons.IH)
    with Inr show ?thesis by simp
  qed
qed

lemma strict_prefix_snoc: "strict_prefix a (b @ [c]) = prefix a b"
  by (auto simp: strict_prefix_def)

lemma strict_prefix_snoc2: "strict_prefix a (b @ [c, c']) = (prefix a b \<or> a = b @ [c])"
proof -
  have "strict_prefix a ((b @ [c]) @ [c']) = prefix a (b @ [c])"
    by (rule strict_prefix_snoc)
  then show ?thesis by auto
qed

subsection \<open>The import\<close>

text \<open>The import fails exactly when the loop does, and binds the names as written.\<close>

lemma load_with_eq:
  "load_with src file fs =
     map_sum id (Pair (namespace src file))
       (create_directories fs (directory_list (namespace src file)))"
  by (simp add: load_with_def Let_def split: sum.splits)

text \<open>Whether the import succeeds does not depend on the settings.\<close>

lemma load_with_checks_nothing:
  assumes "load_with src file fs = Inr (cfg, fs')"
  shows "load_with src' file fs = Inr (namespace src' file, fs')"
proof -
  have "directory_list (namespace src' file) = directory_list (namespace src file)"
    by (simp add: directory_list_def namespace_def Let_def settings.defs config.defs)
  with assms show ?thesis
    by (auto simp: load_with_eq map_sum_def split: sum.splits)
qed

lemma load_namespace:
  "load file fs = Inr (cfg, fs') \<Longrightarrow>
     cfg = namespace config_py file \<and> create_directories fs (directory_list cfg) = Inr fs'"
  by (auto simp: load_def load_with_eq map_sum_def split: sum.splits)

lemma namespace_paths:
  "BASE_DIR (namespace src file) = parent file"
  "DATA_DIR (namespace src file) = parent file @ [''data'']"
  "VIDEO_DIR (namespace src file) = parent file @ [''data'', ''videos'']"
  "AUDIO_DIR (namespace src file) = parent file @ [''data'', ''audio'']"
  "IMAGES_DIR (namespace src file) = parent file @ [''data'', ''images'']"
  "RESULTS_DIR (namespace src file) = parent file @ [''data'', ''results'']"
  "MODELS_DIR (namespace src file) = parent file @ [''models'']"
  "LOG_FILE (namespace src file) = parent file @ [''ecosystem_monitor.log'']"
  by (simp_all add: namespace_def Let_def joinpath_def settings.defs config.defs)

lemma namespace_settings:
  "YOLO_MODEL (namespace src file) = YOLO_MODEL src"
  "YOLO_CONFIDENCE_THRESHOLD (namespace src file) = YOLO_CONFIDENCE_THRESHOLD src"
  "YOLO_IOU_THRESHOLD (namespace src file) = YOLO_IOU_THRESHOLD src"
  "ANIMAL_CLASSES (namespace src file) = ANIMAL_CLASSES src"
  "YAMNET_SAMPLE_RATE (namespace src file) = YAMNET_SAMPLE_RATE src"
  "AUDIO_CONFIDENCE_THRESHOLD (namespace src file) = AUDIO_CONFIDENCE_THRESHOLD src"
  "ALERT_MIN_ANIMALS (namespace src file) = ALERT_MIN_ANIMALS src"
  "ALERT_MAX_ANIMALS (namespace src file) = ALERT_MAX_ANIMALS src"
  "ALERT_RARE_SPECIES (namespace src file) = ALERT_RARE_SPECIES src"
  "ALERT_ACTIVITY_DROP (namespace src file) = ALERT_ACTIVITY_DROP src"
  "ALERT_ACTIVITY_SPIKE (namespace src file) = ALERT_ACTIVITY_SPIKE src"
  "BBOX_COLORS (namespace src file) = BBOX_COLORS src"
  "EXPORT_FORMAT (namespace src file) = EXPORT_FORMAT src"
  "IMAGE_FORMAT (namespace src file) = IMAGE_FORMAT src"
  "LOG_LEVEL (namespace src file) = LOG_LEVEL src"
  "USE_GPU (namespace src file) = USE_GPU src"
  "BATCH_SIZE (namespace src file) = BATCH_SIZE src"
  "NUM_WORKERS (namespace src file) = NUM_WORKERS src"
  "ALERT_EMAIL (namespace src file) = ALERT_EMAIL src"
  "TELEGRAM_BOT_TOKEN (namespace src file) = TELEGRAM_BOT_TOKEN src"
  "TELEGRAM_CHAT_ID (namespace src file) = TELEGRAM_CHAT_ID src"
  "VERSION (namespace src file) = VERSION src"
  "PROJECT_NAME (namespace src file) = PROJECT_NAME src"
  by (simp_all add: namespace_def Let_def settings.defs config.defs)

text \<open>
  After a successful run of the loop every directory of the list exists, so a second
  import finds them all: any import that succeeds can be repeated.
\<close>

lemma create_directories_keeps_dir:
  "create_directories fs ds = Inr fs' \<Longrightarrow> is_dir fs p \<Longrightarrow> is_dir fs' p"
  by (induction ds arbitrary: fs) (auto split: sum.splits dest: mkdir_keeps_dir)

lemma create_directories_makes_dirs:
  "create_directories fs ds = Inr fs' \<Longrightarrow> \<forall>d \<in> set ds. is_dir fs' d"
proof (induction ds arbitrary: fs)
  case Nil
  then show ?case by simp
next
  case (Cons x ds)
  from Cons.prems obtain fs1 where
    m: "mkdir True True fs x = Inr fs1" and r: "create_directories fs1 ds = Inr fs'"
    by (auto split: sum.splits)
  from mkdir_makes_dir [OF m] r have "is_dir fs' x"
    by (rule create_directories_keeps_dir [rotated])
  with Cons.IH [OF r] show ?case by simp
qed

lemma load_again:
  assumes "load file fs = Inr (cfg, fs')"
  shows "load file fs' = Inr (cfg, fs')"
proof -
  from assms have cfg: "cfg = namespace config_py file"
    and run: "create_directories fs (directory_list cfg) = Inr fs'"
    by (simp_all add: load_namespace)
  from run have "\<forall>d \<in> set (directory_list cfg). is_dir fs' d"
    by (rule create_directories_makes_dirs)
  then have "create_directories fs' (directory_list cfg) = Inr fs'"
    by (rule create_directories_existing)
  with cfg show ?thesis
    by (simp add: load_def load_with_eq)
qed

subsection \<open>The example installation\<close>

lemma example_directory_list:
  "directory_list (namespace src example_file) =
     [[''srv'', ''eco'', ''data''], [''srv'', ''eco'', ''data'', ''videos''],
      [''srv'', ''eco'', ''data'', ''audio''], [''srv'', ''eco'', ''data'', ''images''],
      [''srv'', ''eco'', ''data'', ''results''], [''srv'', ''eco'', ''models'']]"
  by (simp add: directory_list_def namespace_paths example_file_def parent_def)

lemma example_create_directories:
  "create_directories example_fs
     [[''srv'', ''eco'', ''data''], [''srv'', ''eco'', ''data'', ''videos''],
      [''srv'', ''eco'', ''data'', ''audio''], [''srv'', ''eco'', ''data'', ''images''],
      [''srv'', ''eco'', ''data'', ''results''], [''srv'', ''eco'', ''models'']]
   = Inr example_fs_ready"
  by (simp add: example_fs_def example_fs_ready_def mkdir.simps)

text \<open>On the fresh checkout the import succeeds, whatever the settings are.\<close>

lemma example_load_with:
  "load_with src example_file example_fs = Inr (namespace src example_file, example_fs_ready)"
  by (simp only: load_with_eq example_directory_list example_create_directories) simp

lemma example_load:
  "load example_file example_fs = Inr (namespace config_py example_file, example_fs_ready)"
  by (simp add: load_def example_load_with)

subsection \<open>Printing\<close>

text \<open>A sequence of prints writes all its lines, or raises at the first that cannot be encoded.\<close>

lemma print_all_eq:
  "print_all enc lines out =
     (if list_all (list_all (piece_encodable enc)) lines then Inr (out @ lines)
      else Inl UnicodeEncodeError)"
  by (induction lines arbitrary: out) (simp_all add: print_def)

lemma rule_encodable: "encodable enc (replicate n CHR ''='')"
proof (cases enc)
  case Utf8
  have "utf8_well_formed (replicate n CHR ''='')"
    by (induction n) (simp_all add: in_range_def)
  with Utf8 show ?thesis by (simp add: encodable_def)
next
  case Ascii
  have "list_all (in_range 0x00 0x7F) (replicate n CHR ''='')"
    by (induction n) (simp_all add: in_range_def)
  with Ascii show ?thesis by (simp add: encodable_def)
qed

lemma captions_utf8:
  "encodable Utf8 caption_base_dir"
  "encodable Utf8 caption_data_dir"
  "encodable Utf8 caption_yolo_model"
  "encodable Utf8 caption_yolo_threshold"
  "encodable Utf8 caption_audio_threshold"
  "encodable Utf8 caption_use_gpu"
  "encodable Utf8 '' v''"
  by (simp_all add: encodable_def in_range_def caption_base_dir_def caption_data_dir_def
      caption_yolo_model_def caption_yolo_threshold_def caption_audio_threshold_def
      caption_threshold_def caption_use_gpu_def)

lemma caption_base_dir_not_ascii: "\<not> encodable Ascii caption_base_dir"
  by (simp add: encodable_def in_range_def caption_base_dir_def)

text \<open>
  On an ASCII stdout \<open>print_config\<close> raises for every record: at the latest the fourth
  line, with the first Cyrillic caption, cannot be encoded.
\<close>

lemma print_config_ascii:
  "print_config Ascii cfg out = Inl UnicodeEncodeError"
  by (simp add: print_config_def print_all_eq caption_base_dir_not_ascii)

text \<open>
  The settings of config.py as it stands are ASCII, so the strings \<open>print_config\<close>
  formats from a loaded record are free of surrogates whenever the path of the
  installation is.
\<close>

lemma loaded_record_printable:
  assumes "load file fs = Inr (cfg, fs')" and "list_all (encodable Utf8) (parent file)"
  shows "encodable Utf8 (PROJECT_NAME cfg)" and "encodable Utf8 (VERSION cfg)"
    and "list_all (encodable Utf8) (BASE_DIR cfg)"
    and "list_all (encodable Utf8) (DATA_DIR cfg)"
    and "encodable Utf8 (YOLO_MODEL cfg)"
proof -
  from assms(1) have cfg: "cfg = namespace config_py file"
    by (simp add: load_namespace)
  have "encodable Utf8 ''data''"
    by (simp add: encodable_def in_range_def)
  with assms(2) cfg
  show "list_all (encodable Utf8) (BASE_DIR cfg)" and "list_all (encodable Utf8) (DATA_DIR cfg)"
    by (simp_all add: namespace_paths)
  from cfg
  show "encodable Utf8 (PROJECT_NAME cfg)" and "encodable Utf8 (VERSION cfg)"
    and "encodable Utf8 (YOLO_MODEL cfg)"
    by (simp_all add: namespace_settings config_py_def encodable_def in_range_def)
qed

section \<open>The claims\<close>

subsection \<open>C1: the probability thresholds\<close>

text \<open>
  C1, as stated, fails: the import checks no value. With the three thresholds edited to
  1.5, -0.5 and 2 the import of the example installation succeeds and binds them.
\<close>

theorem threshold_not_validated:
  "load_with edited_thresholds example_file example_fs =
     Inr (namespace edited_thresholds example_file, example_fs_ready) \<and>
   YOLO_CONFIDENCE_THRESHOLD (namespace edited_thresholds example_file) = 1.5 \<and>
   YOLO_IOU_THRESHOLD (namespace edited_thresholds example_file) = - 0.5 \<and>
   AUDIO_CONFIDENCE_THRESHOLD (namespace edited_thresholds example_file) = 2 \<and>
   \<not> YOLO_CONFIDENCE_THRESHOLD (namespace edited_thresholds example_file) \<le> 1 \<and>
   \<not> 0 \<le> YOLO_IOU_THRESHOLD (namespace edited_thresholds example_file) \<and>
   \<not> AUDIO_CONFIDENCE_THRESHOLD (namespace edited_thresholds example_file) \<le> 1"
  by (simp add: example_load_with namespace_settings edited_thresholds_def)

text \<open>
  C1 (amended): every record the import of config.py as it stands yields has its YOLO
  confidence threshold, its YOLO IoU threshold and its audio confidence threshold in
  the interval from 0.0 to 1.0.
\<close>

theorem load_thresholds_in_unit_interval:
  assumes "load file fs = Inr (cfg, fs')"
  shows "0 \<le> YOLO_CONFIDENCE_THRESHOLD cfg \<and> YOLO_CONFIDENCE_THRESHOLD cfg \<le> 1 \<and>
         0 \<le> YOLO_IOU_THRESHOLD cfg \<and> YOLO_IOU_THRESHOLD cfg \<le> 1 \<and>
         0 \<le> AUDIO_CONFIDENCE_THRESHOLD cfg \<and> AUDIO_CONFIDENCE_THRESHOLD cfg \<le> 1"
proof -
  from assms have "cfg = namespace config_py file"
    by (simp add: load_namespace)
  then show ?thesis
    by (simp add: namespace_settings config_py_def)
qed

theorem load_thresholds_in_unit_interval_witness:
  "0 \<le> YOLO_CONFIDENCE_THRESHOLD (namespace config_py example_file) \<and>
   YOLO_CONFIDENCE_THRESHOLD (namespace config_py example_file) \<le> 1 \<and>
   0 \<le> YOLO_IOU_THRESHOLD (namespace config_py example_file) \<and>
   YOLO_IOU_THRESHOLD (namespace config_py example_file) \<le> 1 \<and>
   0 \<le> AUDIO_CONFIDENCE_THRESHOLD (namespace config_py example_file) \<and>
   AUDIO_CONFIDENCE_THRESHOLD (namespace config_py example_file) \<le> 1"
  by (rule load_thresholds_in_unit_interval [OF example_load])

subsection \<open>C2: the directories exist already\<close>

text \<open>
  C2: when the six directories of the loop exist as directories, the import succeeds and
  leaves the file system as it found it; an import in the state the first one leaves
  succeeds again, with the same record and the same file system.
\<close>

theorem load_idempotent:
  assumes "\<forall>d \<in> set (directory_list (namespace config_py file)). is_dir fs d"
  shows "load file fs = Inr (namespace config_py file, fs) \<and>
         (\<forall>cfg1 fs1. load file fs = Inr (cfg1, fs1) \<longrightarrow> load file fs1 = Inr (cfg1, fs))"
proof -
  from assms
  have "create_directories fs (directory_list (namespace config_py file)) = Inr fs"
    by (rule create_directories_existing)
  then have "load file fs = Inr (namespace config_py file, fs)"
    by (simp add: load_def load_with_eq)
  then show ?thesis by simp
qed

theorem load_idempotent_witness:
  "is_dir example_fs_ready [''srv'', ''eco'', ''data''] \<and>
   is_dir example_fs_ready [''srv'', ''eco'', ''data'', ''videos''] \<and>
   is_dir example_fs_ready [''srv'', ''eco'', ''data'', ''audio''] \<and>
   is_dir example_fs_ready [''srv'', ''eco'', ''data'', ''images''] \<and>
   is_dir example_fs_ready [''srv'', ''eco'', ''data'', ''results''] \<and>
   is_dir example_fs_ready [''srv'', ''eco'', ''models''] \<and>
   load example_file example_fs_ready =
     Inr (namespace config_py example_file, example_fs_ready)"
proof -
  have dirs:
    "is_dir example_fs_ready [''srv'', ''eco'', ''data'']"
    "is_dir example_fs_ready [''srv'', ''eco'', ''data'', ''videos'']"
    "is_dir example_fs_ready [''srv'', ''eco'', ''data'', ''audio'']"
    "is_dir example_fs_ready [''srv'', ''eco'', ''data'', ''images'']"
    "is_dir example_fs_ready [''srv'', ''eco'', ''data'', ''results'']"
    "is_dir example_fs_ready [''srv'', ''eco'', ''models'']"
    by (simp_all add: is_dir_def example_fs_ready_def)
  then have "\<forall>d \<in> set (directory_list (namespace config_py example_file)).
      is_dir example_fs_ready d"
    by (simp add: example_directory_list)
  from load_idempotent [OF this] dirs show ?thesis
    by simp
qed

subsection \<open>C3: a regular file in the place of a directory\<close>

text \<open>
  C3: when one of the six paths of the loop is a regular file, the import fails with an
  error of the file system, the \<open>OSError\<close> subclass \<open>FileExistsError\<close>: it yields
  no record, and the file is not taken for a directory.
\<close>

theorem load_regular_file:
  assumes "d \<in> set (directory_list (namespace config_py file))" and "is_file fs d"
  shows "load file fs = Inl FileExistsError"
proof -
  let ?cfg = "namespace config_py file"
  let ?base = "parent file"
  from assms(1) have below: "strict_prefix ?base d"
    by (auto simp: directory_list_def namespace_paths strict_prefix_def)
  from assms(2) have ex: "path_exists fs d"
    by (auto simp: is_file_def path_exists_def split: sum.splits)
  have above: "\<not> is_file fs a" if "prefix a ?base" for a
  proof -
    from that below have "strict_prefix a d"
      by (rule prefix_order.le_less_trans)
    with ex have "is_dir fs a"
      by (rule is_dir_strict_prefix)
    then show ?thesis
      by (auto simp: is_dir_kind is_file_kind)
  qed
  have "create_directories fs (directory_list ?cfg) = Inl FileExistsError"
  proof (cases "is_file fs (DATA_DIR ?cfg)")
    case True
    then show ?thesis
      by (simp add: directory_list_def mkdir_regular_file)
  next
    case False
    with above
    have "\<forall>x \<in> set (directory_list ?cfg). \<forall>a. strict_prefix a x \<longrightarrow> \<not> is_file fs a"
      by (auto simp: directory_list_def namespace_paths strict_prefix_snoc strict_prefix_snoc2)
    with assms show ?thesis
      by (rule create_directories_file_exists)
  qed
  then show ?thesis
    by (simp add: load_def load_with_eq)
qed

theorem load_regular_file_witness:
  "is_file example_fs_blocked [''srv'', ''eco'', ''data'', ''videos''] \<and>
   load example_file example_fs_blocked = Inl FileExistsError"
proof -
  have f: "is_file example_fs_blocked [''srv'', ''eco'', ''data'', ''videos'']"
    by (simp add: is_file_def example_fs_blocked_def)
  have "[''srv'', ''eco'', ''data'', ''videos'']
      \<in> set (directory_list (namespace config_py example_file))"
    by (simp add: example_directory_list)
  from load_regular_file [OF this f] f show ?thesis
    by simp
qed

subsection \<open>C4: what print_config writes\<close>

text \<open>
  C4, as stated, fails on both counts. The record of the example installation has no
  e-mail address, no bot token and no chat id. On a UTF-8 stdout \<open>print_config\<close>
  writes the ten lines below, none of which stands for one of these fields, and it writes
  the same lines when the three fields are set: there is no placeholder. On an ASCII
  stdout it raises \<open>UnicodeEncodeError\<close>.
\<close>

theorem print_config_no_placeholder:
  "ALERT_EMAIL (namespace config_py example_file) = None \<and>
   TELEGRAM_BOT_TOKEN (namespace config_py example_file) = None \<and>
   TELEGRAM_CHAT_ID (namespace config_py example_file) = None \<and>
   print_config Utf8 (namespace config_py example_file) [] =
     Inr [ [Fmt (PyStr (replicate 60 CHR ''=''))],
           [Fmt (PyStr ''Ecosystem Monitoring System''), Lit '' v'', Fmt (PyStr ''1.0.0'')],
           [Fmt (PyStr (replicate 60 CHR ''=''))],
           [Lit caption_base_dir, Fmt (PyPath [''srv'', ''eco''])],
           [Lit caption_data_dir, Fmt (PyPath [''srv'', ''eco'', ''data''])],
           [Lit caption_yolo_model, Fmt (PyStr ''yolov8n.pt'')],
           [Lit caption_yolo_threshold, Fmt (PyFloat 0.25)],
           [Lit caption_audio_threshold, Fmt (PyFloat 0.3)],
           [Lit caption_use_gpu, Fmt (PyBool True)],
           [Fmt (PyStr (replicate 60 CHR ''=''))] ] \<and>
   ALERT_EMAIL (namespace edited_notification example_file) = Some ''ecologist@example.com'' \<and>
   TELEGRAM_BOT_TOKEN (namespace edited_notification example_file) = Some ''12345:token'' \<and>
   TELEGRAM_CHAT_ID (namespace edited_notification example_file) = Some ''42'' \<and>
   print_config Utf8 (namespace edited_notification example_file) [] =
     print_config Utf8 (namespace config_py example_file) [] \<and>
   print_config Ascii (namespace config_py example_file) [] = Inl UnicodeEncodeError"
proof -
  have fields:
    "encodable Utf8 ''Ecosystem Monitoring System''"
    "encodable Utf8 ''1.0.0''"
    "encodable Utf8 ''yolov8n.pt''"
    "encodable Utf8 ''srv''" "encodable Utf8 ''eco''" "encodable Utf8 ''data''"
    by (simp_all add: encodable_def in_range_def)
  have "\<not> encodable Ascii caption_base_dir"
    by (simp add: encodable_def in_range_def caption_base_dir_def)
  with fields show ?thesis
    by (simp add: print_config_def print_all_eq rule_encodable captions_utf8
        namespace_settings namespace_paths config_py_def edited_notification_def
        example_file_def parent_def)
qed

text \<open>
  C4 (amended): on a UTF-8 stdout \<open>print_config\<close> raises nothing, whether or not the
  e-mail address, the bot token and the chat id are set, for every record whose project
  name, version, YOLO model name and base and data directory are free of surrogates. It
  writes exactly ten lines: a rule of sixty equals signs; the project name, \<open>" v"\<close> and
  the version; the rule; the base directory, the data directory, the YOLO model, the
  YOLO confidence threshold, the audio confidence threshold and the GPU flag, each after
  its caption; the rule. The three optional fields are not rendered at all, by a
  placeholder or otherwise: whatever the encoding of stdout, \<open>print_config\<close> does the
  same whether they are set or unset.
\<close>

theorem print_config_utf8:
  assumes "encodable Utf8 (PROJECT_NAME cfg)" and "encodable Utf8 (VERSION cfg)"
    and "list_all (encodable Utf8) (BASE_DIR cfg)"
    and "list_all (encodable Utf8) (DATA_DIR cfg)"
    and "encodable Utf8 (YOLO_MODEL cfg)"
  shows "print_config Utf8 cfg out =
           Inr (out @
             [ [Fmt (PyStr (replicate 60 CHR ''=''))],
               [Fmt (PyStr (PROJECT_NAME cfg)), Lit '' v'', Fmt (PyStr (VERSION cfg))],
               [Fmt (PyStr (replicate 60 CHR ''=''))],
               [Lit caption_base_dir, Fmt (PyPath (BASE_DIR cfg))],
               [Lit caption_data_dir, Fmt (PyPath (DATA_DIR cfg))],
               [Lit caption_yolo_model, Fmt (PyStr (YOLO_MODEL cfg))],
               [Lit caption_yolo_threshold, Fmt (PyFloat (YOLO_CONFIDENCE_THRESHOLD cfg))],
               [Lit caption_audio_threshold, Fmt (PyFloat (AUDIO_CONFIDENCE_THRESHOLD cfg))],
               [Lit caption_use_gpu, Fmt (PyBool (USE_GPU cfg))],
               [Fmt (PyStr (replicate 60 CHR ''=''))] ]) \<and>
         print_config enc
           (cfg\<lparr>ALERT_EMAIL := email, TELEGRAM_BOT_TOKEN := token, TELEGRAM_CHAT_ID := chat\<rparr>)
           out' =
           print_config enc cfg out'"
proof -
  from assms have "print_config Utf8 cfg out =
      Inr (out @
        [ [Fmt (PyStr (replicate 60 CHR ''=''))],
          [Fmt (PyStr (PROJECT_NAME cfg)), Lit '' v'', Fmt (PyStr (VERSION cfg))],
          [Fmt (PyStr (replicate 60 CHR ''=''))],
          [Lit caption_base_dir, Fmt (PyPath (BASE_DIR cfg))],
          [Lit caption_data_dir, Fmt (PyPath (DATA_DIR cfg))],
          [Lit caption_yolo_model, Fmt (PyStr (YOLO_MODEL cfg))],
          [Lit caption_yolo_threshold, Fmt (PyFloat (YOLO_CONFIDENCE_THRESHOLD cfg))],
          [Lit caption_audio_threshold, Fmt (PyFloat (AUDIO_CONFIDENCE_THRESHOLD cfg))],
          [Lit caption_use_gpu, Fmt (PyBool (USE_GPU cfg))],
          [Fmt (PyStr (replicate 60 CHR ''=''))] ])"
    by (simp add: print_config_def print_all_eq rule_encodable captions_utf8)
  moreover have "print_config enc
      (cfg\<lparr>ALERT_EMAIL := email, TELEGRAM_BOT_TOKEN := token, TELEGRAM_CHAT_ID := chat\<rparr>) out' =
      print_config enc cfg out'"
    by (simp add: print_config_def)
  ultimately show ?thesis by simp
qed

theorem print_config_utf8_witness:
  "encodable Utf8 (PROJECT_NAME (namespace config_py example_file)) \<and>
   encodable Utf8 (VERSION (namespace config_py example_file)) \<and>
   list_all (encodable Utf8) (BASE_DIR (namespace config_py example_file)) \<and>
   list_all (encodable Utf8) (DATA_DIR (namespace config_py example_file)) \<and>
   encodable Utf8 (YOLO_MODEL (namespace config_py example_file)) \<and>
   print_config Utf8 (namespace config_py example_file) [] =
     Inr [ [Fmt (PyStr (replicate 60 CHR ''=''))],
           [Fmt (PyStr ''Ecosystem Monitoring System''), Lit '' v'', Fmt (PyStr ''1.0.0'')],
           [Fmt (PyStr (replicate 60 CHR ''=''))],
           [Lit caption_base_dir, Fmt (PyPath [''srv'', ''eco''])],
           [Lit caption_data_dir, Fmt (PyPath [''srv'', ''eco'', ''data''])],
           [Lit caption_yolo_model, Fmt (PyStr ''yolov8n.pt'')],
           [Lit caption_yolo_threshold, Fmt (PyFloat 0.25)],
           [Lit caption_audio_threshold, Fmt (PyFloat 0.3)],
           [Lit caption_use_gpu, Fmt (PyBool True)],
           [Fmt (PyStr (replicate 60 CHR ''=''))] ] \<and>
   print_config Ascii
     ((namespace config_py example_file)
        \<lparr>ALERT_EMAIL := Some ''ecologist@example.com'', TELEGRAM_BOT_TOKEN := None,
         TELEGRAM_CHAT_ID := None\<rparr>) [] =
     print_config Ascii (namespace config_py example_file) []"
proof -
  have hyps:
    "encodable Utf8 (PROJECT_NAME (namespace config_py example_file))"
    "encodable Utf8 (VERSION (namespace config_py example_file))"
    "list_all (encodable Utf8) (BASE_DIR (namespace config_py example_file))"
    "list_all (encodable Utf8) (DATA_DIR (namespace config_py example_file))"
    "encodable Utf8 (YOLO_MODEL (namespace config_py example_file))"
    by (simp_all add: namespace_settings namespace_paths config_py_def example_file_def
        parent_def encodable_def in_range_def)
  have fields:
    "PROJECT_NAME (namespace config_py example_file) = ''Ecosystem Monitoring System''"
    "VERSION (namespace config_py example_file) = ''1.0.0''"
    "BASE_DIR (namespace config_py example_file) = [''srv'', ''eco'']"
    "DATA_DIR (namespace config_py example_file) = [''srv'', ''eco'', ''data'']"
    "YOLO_MODEL (namespace config_py example_file) = ''yolov8n.pt''"
    "YOLO_CONFIDENCE_THRESHOLD (namespace config_py example_file) = 0.25"
    "AUDIO_CONFIDENCE_THRESHOLD (namespace config_py example_file) = 0.3"
    "USE_GPU (namespace config_py example_file) = True"
    by (simp_all add: namespace_settings namespace_paths config_py_def example_file_def
        parent_def)
  from print_config_utf8
    [where cfg = "namespace config_py example_file" and out = "[]" and enc = Ascii
       and email = "Some ''ecologist@example.com''" and token = None and chat = None
       and out' = "[]", OF hyps]
  have "print_config Utf8 (namespace config_py example_file) [] =
     Inr [ [Fmt (PyStr (replicate 60 CHR ''=''))],
           [Fmt (PyStr ''Ecosystem Monitoring System''), Lit '' v'', Fmt (PyStr ''1.0.0'')],
           [Fmt (PyStr (replicate 60 CHR ''=''))],
           [Lit caption_base_dir, Fmt (PyPath [''srv'', ''eco''])],
           [Lit caption_data_dir, Fmt (PyPath [''srv'', ''eco'', ''data''])],
           [Lit caption_yolo_model, Fmt (PyStr ''yolov8n.pt'')],
           [Lit caption_yolo_threshold, Fmt (PyFloat 0.25)],
           [Lit caption_audio_threshold, Fmt (PyFloat 0.3)],
           [Lit caption_use_gpu, Fmt (PyBool True)],
           [Fmt (PyStr (replicate 60 CHR ''=''))] ] \<and>
   print_config Ascii
     ((namespace config_py example_file)
        \<lparr>ALERT_EMAIL := Some ''ecologist@example.com'', TELEGRAM_BOT_TOKEN := None,
         TELEGRAM_CHAT_ID := None\<rparr>) [] =
     print_config Ascii (namespace config_py example_file) []"
    unfolding fields append_Nil .
  with hyps show ?thesis
    by blast
qed

subsection \<open>C5: the enumerated settings\<close>

text \<open>
  C5, as stated, fails: with the export format edited to \<open>xml\<close>, the image format to
  \<open>bmp\<close> and the log level to \<open>TRACE\<close>, none of which is in its set, the import
  of the example installation succeeds and binds the three values as written.
\<close>

theorem export_format_not_validated:
  "load_with edited_formats example_file example_fs =
     Inr (namespace edited_formats example_file, example_fs_ready) \<and>
   EXPORT_FORMAT (namespace edited_formats example_file) = ''xml'' \<and>
   IMAGE_FORMAT (namespace edited_formats example_file) = ''bmp'' \<and>
   LOG_LEVEL (namespace edited_formats example_file) = ''TRACE'' \<and>
   ''xml'' \<notin> export_formats \<and> ''bmp'' \<notin> image_formats \<and> ''TRACE'' \<notin> log_levels"
  by (simp add: example_load_with namespace_settings edited_formats_def export_formats_def
      image_formats_def log_levels_def)

text \<open>
  C5 (amended): every record the import of config.py as it stands yields has an export
  format among \<open>csv\<close>, \<open>json\<close> and \<open>excel\<close>, an image format among \<open>png\<close> and
  \<open>jpg\<close>, and a log level among \<open>DEBUG\<close>, \<open>INFO\<close>, \<open>WARNING\<close> and \<open>ERROR\<close>.
\<close>

theorem load_enumerated_settings:
  assumes "load file fs = Inr (cfg, fs')"
  shows "EXPORT_FORMAT cfg \<in> export_formats \<and> IMAGE_FORMAT cfg \<in> image_formats \<and>
         LOG_LEVEL cfg \<in> log_levels"
proof -
  from assms have cfg: "cfg = namespace config_py file"
    by (simp add: load_namespace)
  have "EXPORT_FORMAT config_py = ''csv''" and "IMAGE_FORMAT config_py = ''png''"
    and "LOG_LEVEL config_py = ''INFO''"
    by (simp_all add: config_py_def)
  with cfg show ?thesis
    by (simp add: namespace_settings export_formats_def image_formats_def log_levels_def)
qed

theorem load_enumerated_settings_witness:
  "EXPORT_FORMAT (namespace config_py example_file) \<in> export_formats \<and>
   IMAGE_FORMAT (namespace config_py example_file) \<in> image_formats \<and>
   LOG_LEVEL (namespace config_py example_file) \<in> log_levels"
  by (rule load_enumerated_settings [OF example_load])

subsection \<open>C6: the bounds on the number of animals\<close>

text \<open>
  C6, as stated, fails: with the minimum edited to 50 and the maximum to 10 the import of
  the example installation succeeds and binds both.
\<close>

theorem animal_bounds_not_validated:
  "load_with edited_animal_bounds example_file example_fs =
     Inr (namespace edited_animal_bounds example_file, example_fs_ready) \<and>
   ALERT_MIN_ANIMALS (namespace edited_animal_bounds example_file) = 50 \<and>
   ALERT_MAX_ANIMALS (namespace edited_animal_bounds example_file) = 10 \<and>
   \<not> ALERT_MIN_ANIMALS (namespace edited_animal_bounds example_file)
       \<le> ALERT_MAX_ANIMALS (namespace edited_animal_bounds example_file)"
  by (simp add: example_load_with namespace_settings edited_animal_bounds_def)

text \<open>
  C6 (amended): every record the import of config.py as it stands yields satisfies
  \<open>ALERT_MIN_ANIMALS \<le> ALERT_MAX_ANIMALS\<close>, and both are non-negative integers.
\<close>

theorem load_animal_bounds:
  assumes "load file fs = Inr (cfg, fs')"
  shows "0 \<le> ALERT_MIN_ANIMALS cfg \<and> ALERT_MIN_ANIMALS cfg \<le> ALERT_MAX_ANIMALS cfg \<and>
         0 \<le> ALERT_MAX_ANIMALS cfg"
proof -
  from assms have "cfg = namespace config_py file"
    by (simp add: load_namespace)
  then show ?thesis
    by (simp add: namespace_settings config_py_def)
qed

theorem load_animal_bounds_witness:
  "0 \<le> ALERT_MIN_ANIMALS (namespace config_py example_file) \<and>
   ALERT_MIN_ANIMALS (namespace config_py example_file)
     \<le> ALERT_MAX_ANIMALS (namespace config_py example_file) \<and>
   0 \<le> ALERT_MAX_ANIMALS (namespace config_py example_file)"
  by (rule load_animal_bounds [OF example_load])

subsection \<open>C7: the colour of a species that is not listed\<close>

text \<open>
  C7: the colour mapping of every loaded record has a \<open>default\<close> entry, the triple
  (255, 255, 0), and the lookup answers with this triple for every species the mapping
  does not list.
\<close>

theorem color_lookup_default:
  assumes "load file fs = Inr (cfg, fs')"
  shows "dict (BBOX_COLORS cfg) ''default'' = Some (255, 255, 0) \<and>
         (\<forall>species. dict (BBOX_COLORS cfg) species = None \<longrightarrow>
            color_lookup (BBOX_COLORS cfg) species = Some (255, 255, 0))"
proof -
  from assms have "cfg = namespace config_py file"
    by (simp add: load_namespace)
  then have colors: "BBOX_COLORS cfg =
      [(''bird'', (0, 255, 0)), (''bear'', (255, 0, 0)), (''deer'', (0, 255, 255)),
       (''default'', (255, 255, 0))]"
    by (simp add: namespace_settings config_py_def)
  then have "dict (BBOX_COLORS cfg) ''default'' = Some (255, 255, 0)"
    by (simp add: dict_def)
  then show ?thesis
    by (simp add: color_lookup_def)
qed

theorem color_lookup_default_witness:
  "dict (BBOX_COLORS (namespace config_py example_file)) ''deer-subspecies-x'' = None \<and>
   color_lookup (BBOX_COLORS (namespace config_py example_file)) ''deer-subspecies-x'' =
     Some (255, 255, 0)"
proof -
  have unlisted:
    "dict (BBOX_COLORS (namespace config_py example_file)) ''deer-subspecies-x'' = None"
    by (simp add: namespace_settings config_py_def dict_def)
  with color_lookup_default [OF example_load] show ?thesis
    by blast
qed

subsection \<open>C8: the activity ratios and the sizes\<close>

text \<open>
  C8: in every loaded record the activity drop ratio lies strictly between 0 and 1, the
  activity spike ratio is greater than 1 (hence positive), and the audio sample rate, the
  batch size and the number of workers are positive integers.
\<close>

theorem load_ratios_and_sizes:
  assumes "load file fs = Inr (cfg, fs')"
  shows "0 < ALERT_ACTIVITY_DROP cfg \<and> ALERT_ACTIVITY_DROP cfg < 1 \<and>
         0 < ALERT_ACTIVITY_SPIKE cfg \<and> 1 < ALERT_ACTIVITY_SPIKE cfg \<and>
         0 < YAMNET_SAMPLE_RATE cfg \<and> 0 < BATCH_SIZE cfg \<and> 0 < NUM_WORKERS cfg"
proof -
  from assms have "cfg = namespace config_py file"
    by (simp add: load_namespace)
  then show ?thesis
    by (simp add: namespace_settings config_py_def)
qed

theorem load_ratios_and_sizes_witness:
  "0 < ALERT_ACTIVITY_DROP (namespace config_py example_file) \<and>
   ALERT_ACTIVITY_DROP (namespace config_py example_file) < 1 \<and>
   0 < ALERT_ACTIVITY_SPIKE (namespace config_py example_file) \<and>
   1 < ALERT_ACTIVITY_SPIKE (namespace config_py example_file) \<and>
   0 < YAMNET_SAMPLE_RATE (namespace config_py example_file) \<and>
   0 < BATCH_SIZE (namespace config_py example_file) \<and>
   0 < NUM_WORKERS (namespace config_py example_file)"
  by (rule load_ratios_and_sizes [OF example_load])

subsection \<open>C9: the rare species are species the detector can label\<close>

text \<open>
  C9: in every loaded record, each name in \<open>ALERT_RARE_SPECIES\<close> is the label of some
  class identifier in \<open>ANIMAL_CLASSES\<close>.
\<close>

theorem rare_species_are_labels:
  assumes "load file fs = Inr (cfg, fs')"
  shows "\<forall>species \<in> set (ALERT_RARE_SPECIES cfg).
           \<exists>class_id. dict (ANIMAL_CLASSES cfg) class_id = Some species"
proof -
  from assms have cfg: "cfg = namespace config_py file"
    by (simp add: load_namespace)
  then have rare: "ALERT_RARE_SPECIES cfg = [''bear'', ''elephant'', ''giraffe'', ''zebra'']"
    by (simp add: namespace_settings config_py_def)
  from cfg have
    "dict (ANIMAL_CLASSES cfg) 21 = Some ''bear''"
    "dict (ANIMAL_CLASSES cfg) 20 = Some ''elephant''"
    "dict (ANIMAL_CLASSES cfg) 23 = Some ''giraffe''"
    "dict (ANIMAL_CLASSES cfg) 22 = Some ''zebra''"
    by (simp_all add: namespace_settings config_py_def dict_def)
  with rare show ?thesis
    by auto
qed

theorem rare_species_are_labels_witness:
  "''giraffe'' \<in> set (ALERT_RARE_SPECIES (namespace config_py example_file)) \<and>
   (\<exists>class_id. dict (ANIMAL_CLASSES (namespace config_py example_file)) class_id =
      Some ''giraffe'')"
proof -
  have "''giraffe'' \<in> set (ALERT_RARE_SPECIES (namespace config_py example_file))"
    by (simp add: namespace_settings config_py_def)
  with rare_species_are_labels [OF example_load] show ?thesis
    by blast
qed

subsection \<open>C10: every path lies below the base directory\<close>

text \<open>
  C10: in every loaded record the data, video, audio, image, result and model
  directories and the log file are proper descendants of \<open>BASE_DIR\<close>. \<open>BASE_DIR\<close> is
  the directory that holds config.py; when it exists as a directory, every path the
  import creates is a proper descendant of it as well.
\<close>

theorem load_paths_below_base:
  assumes "load file fs = Inr (cfg, fs')"
  shows "strict_prefix (BASE_DIR cfg) (DATA_DIR cfg) \<and>
         strict_prefix (BASE_DIR cfg) (VIDEO_DIR cfg) \<and>
         strict_prefix (BASE_DIR cfg) (AUDIO_DIR cfg) \<and>
         strict_prefix (BASE_DIR cfg) (IMAGES_DIR cfg) \<and>
         strict_prefix (BASE_DIR cfg) (RESULTS_DIR cfg) \<and>
         strict_prefix (BASE_DIR cfg) (MODELS_DIR cfg) \<and>
         strict_prefix (BASE_DIR cfg) (LOG_FILE cfg) \<and>
         (is_dir fs (BASE_DIR cfg) \<longrightarrow>
            (\<forall>p. path_exists fs' p \<and> \<not> path_exists fs p \<longrightarrow>
               strict_prefix (BASE_DIR cfg) p))"
proof -
  from assms have cfg: "cfg = namespace config_py file"
    and run: "create_directories fs (directory_list cfg) = Inr fs'"
    by (simp_all add: load_namespace)
  from cfg have paths:
    "strict_prefix (BASE_DIR cfg) (DATA_DIR cfg)"
    "strict_prefix (BASE_DIR cfg) (VIDEO_DIR cfg)"
    "strict_prefix (BASE_DIR cfg) (AUDIO_DIR cfg)"
    "strict_prefix (BASE_DIR cfg) (IMAGES_DIR cfg)"
    "strict_prefix (BASE_DIR cfg) (RESULTS_DIR cfg)"
    "strict_prefix (BASE_DIR cfg) (MODELS_DIR cfg)"
    "strict_prefix (BASE_DIR cfg) (LOG_FILE cfg)"
    by (simp_all add: namespace_paths strict_prefix_def)
  have "strict_prefix (BASE_DIR cfg) p"
    if base: "is_dir fs (BASE_DIR cfg)" and new: "path_exists fs' p" "\<not> path_exists fs p" for p
  proof -
    from create_directories_new [OF run new] obtain d
      where d: "d \<in> set (directory_list cfg)" and pd: "prefix p d"
      by blast
    from d paths have "prefix (BASE_DIR cfg) d"
      by (auto simp: directory_list_def strict_prefix_def)
    with pd have "prefix p (BASE_DIR cfg) \<or> prefix (BASE_DIR cfg) p"
      by (rule prefix_same_cases)
    moreover from base have "path_exists fs (BASE_DIR cfg)"
      by (auto simp: is_dir_kind path_exists_kind)
    with new(2) have "\<not> prefix p (BASE_DIR cfg)"
      by (auto dest: exists_prefix)
    ultimately show ?thesis
      by (auto simp: strict_prefix_def)
  qed
  with paths show ?thesis by blast
qed

theorem load_paths_below_base_witness:
  "BASE_DIR (namespace config_py example_file) = [''srv'', ''eco''] \<and>
   strict_prefix [''srv'', ''eco''] (VIDEO_DIR (namespace config_py example_file)) \<and>
   strict_prefix [''srv'', ''eco''] (LOG_FILE (namespace config_py example_file)) \<and>
   is_dir example_fs [''srv'', ''eco''] \<and>
   path_exists example_fs_ready [''srv'', ''eco'', ''models''] \<and>
   \<not> path_exists example_fs [''srv'', ''eco'', ''models''] \<and>
   strict_prefix [''srv'', ''eco''] [''srv'', ''eco'', ''models'']"
proof -
  have base: "BASE_DIR (namespace config_py example_file) = [''srv'', ''eco'']"
    by (simp add: namespace_paths example_file_def parent_def)
  have facts:
    "is_dir example_fs [''srv'', ''eco'']"
    "path_exists example_fs_ready [''srv'', ''eco'', ''models'']"
    "\<not> path_exists example_fs [''srv'', ''eco'', ''models'']"
    by (simp_all add: is_dir_def path_exists_def example_fs_def example_fs_ready_def)
  from load_paths_below_base [OF example_load] base facts show ?thesis
    by simp
qed

end
